theory Spec2Isabelle
  imports Complex_Main
begin

section \<open>JavaScript strings\<close>

text \<open>
  Strings are modelled as \<^typ>\<open>string\<close> over ASCII. \<open>toLowerCase\<close> maps the
  letters \<open>A\<close>..\<open>Z\<close> to \<open>a\<close>..\<open>z\<close> and leaves every other character alone;
  the Unicode case mapping of characters outside ASCII is not modelled.
\<close>

fun toLowerCase_char :: "char \<Rightarrow> char" where
  "toLowerCase_char (Char b0 b1 b2 b3 b4 b5 b6 b7) =
     (if 65 \<le> (of_char (Char b0 b1 b2 b3 b4 b5 b6 b7) :: nat)
         \<and> (of_char (Char b0 b1 b2 b3 b4 b5 b6 b7) :: nat) \<le> 90
      then Char b0 b1 b2 b3 b4 True b6 b7
      else Char b0 b1 b2 b3 b4 b5 b6 b7)"

definition toLowerCase :: "string \<Rightarrow> string" where
  "toLowerCase s = map toLowerCase_char s"

text \<open>\<open>Array.prototype.join\<close> on an array of strings.\<close>

fun join :: "string \<Rightarrow> string list \<Rightarrow> string" where
  "join sep [] = []"
| "join sep [x] = x"
| "join sep (x # y # ys) = x @ sep @ join sep (y # ys)"

text \<open>
  \<open>String.prototype.includes\<close>: the needle occurs at some position of the
  haystack.
\<close>

fun starts_with :: "string \<Rightarrow> string \<Rightarrow> bool" where
  "starts_with hay [] = True"
| "starts_with [] (n # ns) = False"
| "starts_with (h # hs) (n # ns) = (h = n \<and> starts_with hs ns)"

fun includes_str :: "string \<Rightarrow> string \<Rightarrow> bool" where
  "includes_str [] needle = starts_with [] needle"
| "includes_str (h # hs) needle = (starts_with (h # hs) needle \<or> includes_str hs needle)"

section \<open>Material classifier (components/DashboardsIntegrated.tsx)\<close>

text \<open>
  The argument is \<open>string | null | undefined\<close>; \<open>None\<close> stands for both
  \<open>null\<close> and \<open>undefined\<close>, which \<open>code == null\<close> treats alike.
\<close>

definition MATERIAL_LABEL :: "string option \<Rightarrow> string" where
  "MATERIAL_LABEL code =
     (case code of
        None \<Rightarrow> ''Not determined''
      | Some c \<Rightarrow>
          (let v = toLowerCase c in
           if v \<in> set [''lead'', ''pb'', ''l''] then ''Lead''
           else if v \<in> set [''copper'', ''cu''] then ''Copper''
           else if v \<in> set [''galv'', ''galvanized''] then ''Galvanized Steel''
           else if v \<in> set [''unknown'', ''unk'', ''u'', ''''] then ''Not determined''
           else c))"

section \<open>Filter clause builder (services/arcgis/featureService.ts)\<close>

datatype material_filter = M_all | M_lead | M_unknown

record FilterOptions =
  material :: material_filter
  showCustomer :: bool
  showSupplier :: bool
  status :: "string list option"

text \<open>The template literal \<open>`'${s}'`\<close>.\<close>

definition quote :: "string \<Rightarrow> string" where
  "quote s = [CHR 0x27] @ s @ [CHR 0x27]"

definition material_conditions :: "material_filter \<Rightarrow> string list" where
  "material_conditions m =
     (if m = M_lead then [''(CustomerMaterial = 'Lead' OR SupplierMaterial = 'Lead')'']
      else if m = M_unknown
        then [''(CustomerMaterial = 'Unknown' OR SupplierMaterial = 'Unknown')'']
      else [])"

definition status_conditions :: "string list option \<Rightarrow> string list" where
  "status_conditions st =
     (case st of
        None \<Rightarrow> []
      | Some ss \<Rightarrow>
          (if length ss > 0
           then [''Status IN ('' @ join '','' (map quote ss) @ '')'']
           else []))"

definition buildWhereClause :: "FilterOptions \<Rightarrow> string" where
  "buildWhereClause filters =
     (let conditions = material_conditions (material filters) @ status_conditions (status filters)
      in if length conditions > 0 then join '' AND '' conditions else ''1=1'')"

section \<open>Data model (services/types.ts)\<close>

text \<open>
  A raw attribute that may hold values of several JavaScript types. It is used for
  \<open>LetterSent\<close>, which the code compares with both the number \<open>1\<close> and the
  boolean \<open>true\<close>.
\<close>

datatype jsval = JUndefined | JNull | JBool bool | JNum real | JStr string

text \<open>
  The attributes of one feature of the dataset, typed as \<open>ServiceLineFeature\<close>
  declares them. \<open>None\<close> is a field that is missing (\<open>undefined\<close>) or \<open>null\<close>.
  Every feature carries its attribute object and its primary key \<open>OBJECTID\<close>.
  Coordinates are passed through unchanged and never computed with, so they are
  modelled as real numbers.
\<close>

record ServiceLineFeature =
  OBJECTID :: int
  Address :: "string option"
  CustomerMaterial :: "string option"
  SupplierMaterial :: "string option"
  LetterSent :: jsval
  YearBuilt :: "int option"
  Status :: "string option"

record point =
  geom_x :: real
  geom_y :: real

record feature =
  attributes :: ServiceLineFeature
  geometry :: "point option"

record Location =
  loc_id :: int
  address :: string
  customerMaterial :: string
  supplierMaterial :: string
  letterSent :: bool
  buildYear :: int
  loc_status :: string
  lat :: real
  lng :: real

text \<open>The closed status enumeration \<open>"VERIFIED" | "ASSUMED" | "UNKNOWN"\<close>.\<close>

definition status_enumeration :: "string list" where
  "status_enumeration = [''VERIFIED'', ''ASSUMED'', ''UNKNOWN'']"

record feature_stats =
  total :: nat
  lead :: nat
  unknown :: nat
  verified :: nat
  assumed :: nat


section \<open>Configuration (config/arcgis.config.ts)\<close>

record oauth_config =
  clientId :: string
  portalUrl :: string
  redirectUri :: string

record arcgisConfig =
  featureServiceUrl :: string
  oauth :: oauth_config
  geocodeServiceUrl :: string
  map_center :: "real \<times> real"

text \<open>
  The configuration with no environment variable set but the feature service, as
  the development set-up has it.
\<close>

definition example_config :: arcgisConfig where
  "example_config =
     \<lparr>featureServiceUrl = ''https://services.arcgis.com/org/arcgis/rest/services/S/FeatureServer/0'',
      oauth = \<lparr>clientId = [], portalUrl = ''https://www.arcgis.com'',
               redirectUri = ''http://localhost:5173''\<rparr>,
      geocodeServiceUrl = ''https://geocode.arcgis.com/arcgis/rest/services/World/GeocodeServer'',
      map_center = (-87.8, 42.1)\<rparr>"

section \<open>Requests, responses and errors\<close>

text \<open>
  A request is the endpoint and the \<open>URLSearchParams\<close> entries in the order they
  were added. The answer of the network is an input of the model:
  \<open>Rejected\<close> is a \<open>fetch\<close> promise that rejects (a transport error),
  \<open>Response ok statusText body\<close> a completed exchange, where \<open>body = None\<close> means
  that \<open>response.json()\<close> rejects.
\<close>

record http_request =
  url :: string
  params :: "(string \<times> string) list"

datatype 'd fetch_result = Rejected | Response bool string "'d option"

datatype error = Error string | TypeError | SyntaxError | NetworkError

text \<open>
  \<open>try { body } catch (error) { handler }\<close> over results: \<open>Inl\<close> is a thrown
  error or a rejected promise.
\<close>

definition try_catch :: "error + 'a \<Rightarrow> (error \<Rightarrow> error + 'a) \<Rightarrow> error + 'a" where
  "try_catch body handler = (case body of Inl e \<Rightarrow> handler e | Inr v \<Rightarrow> Inr v)"

text \<open>
  The JSON of a feature query: \<open>error = Some m\<close> is an error object whose
  message is \<open>m\<close>; \<open>features = None\<close> is a payload without a feature array.
\<close>

record feature_data =
  error :: "string option"
  features :: "feature list option"



text \<open>
  The JSON of the token endpoint. \<open>None\<close> is a field that the answer does not have
  (\<open>undefined\<close>); \<open>expires_in\<close>, when present, is a whole number of seconds.
\<close>

record token_data =
  access_token :: "string option"
  refresh_token :: "string option"
  expires_in :: "int option"

section \<open>Authorization session (services/arcgis/auth.ts)\<close>

text \<open>
  \<open>tokenExpiry\<close> is \<open>number | null\<close>. Instants are integers (milliseconds);
  \<open>NaN\<close> is kept because \<open>Date.now() + data.expires_in * 1000\<close> is \<open>NaN\<close>
  when the provider's answer has no \<open>expires_in\<close>. \<open>Date.now()\<close> is a natural
  number passed in as \<open>now\<close>.
\<close>

datatype jsnum = NaN | Num int

record auth_state =
  accessToken :: "string option"
  refreshToken :: "string option"
  tokenExpiry :: "jsnum option"
  codeVerifier :: "string option"

text \<open>The service object together with the browser's \<open>sessionStorage\<close>.\<close>

record session =
  auth :: auth_state
  sessionStorage :: "string \<rightharpoonup> string"

text \<open>The field initialisers of the class.\<close>

definition initial_auth :: auth_state where
  "initial_auth =
     \<lparr>accessToken = None, refreshToken = None, tokenExpiry = None, codeVerifier = None\<rparr>"

text \<open>Truthiness of \<open>string | null\<close> and of \<open>number | null\<close>.\<close>

definition truthy_string :: "string option \<Rightarrow> bool" where
  "truthy_string v = (case v of None \<Rightarrow> False | Some s \<Rightarrow> s \<noteq> [])"

definition truthy_number :: "jsnum option \<Rightarrow> bool" where
  "truthy_number v = (case v of None \<Rightarrow> False | Some NaN \<Rightarrow> False | Some (Num n) \<Rightarrow> n \<noteq> 0)"

text \<open>\<open>Date.now() < this.tokenExpiry\<close>; \<open>null\<close> converts to \<open>0\<close>.\<close>

definition now_less :: "nat \<Rightarrow> jsnum option \<Rightarrow> bool" where
  "now_less now v =
     (case v of None \<Rightarrow> int now < 0 | Some NaN \<Rightarrow> False | Some (Num n) \<Rightarrow> int now < n)"

definition isAuthenticated :: "auth_state \<Rightarrow> nat \<Rightarrow> bool" where
  "isAuthenticated s now =
     (if \<not> truthy_string (accessToken s) \<or> \<not> truthy_number (tokenExpiry s) then False
      else now_less now (tokenExpiry s))"

definition getAccessToken :: "auth_state \<Rightarrow> nat \<Rightarrow> string option" where
  "getAccessToken s now = (if isAuthenticated s now then accessToken s else None)"

definition logout :: "session \<Rightarrow> session" where
  "logout \<sigma> =
     \<lparr>auth = \<lparr>accessToken = None, refreshToken = None, tokenExpiry = None, codeVerifier = None\<rparr>,
      sessionStorage = (sessionStorage \<sigma>)(''pkce_verifier'' := None, ''auth_redirect'' := None)\<rparr>"

definition token_expiry_from :: "nat \<Rightarrow> int option \<Rightarrow> jsnum" where
  "token_expiry_from now e = (case e of None \<Rightarrow> NaN | Some n \<Rightarrow> Num (int now + n * 1000))"

definition handleCallback_request :: "arcgisConfig \<Rightarrow> string \<Rightarrow> string \<Rightarrow> http_request" where
  "handleCallback_request cfg auth_code verifier =
     \<lparr>url = portalUrl (oauth cfg) @ ''/sharing/rest/oauth2/token'',
      params = [(''client_id'', clientId (oauth cfg)),
                (''grant_type'', ''authorization_code''),
                (''code'', auth_code),
                (''redirect_uri'', redirectUri (oauth cfg)),
                (''code_verifier'', verifier)]\<rparr>"

text \<open>
  \<open>handleCallback\<close>: the result is the promise's outcome (\<open>Inl\<close>: rejected with
  that error) and the session afterwards. \<open>now\<close> is the clock at the assignment of
  \<open>tokenExpiry\<close>.
\<close>

definition handleCallback ::
  "arcgisConfig \<Rightarrow> (http_request \<Rightarrow> token_data fetch_result) \<Rightarrow> nat \<Rightarrow> string \<Rightarrow> session
     \<Rightarrow> (error + unit) \<times> session" where
  "handleCallback cfg fetch now auth_code \<sigma> =
     (if \<not> truthy_string (sessionStorage \<sigma> ''pkce_verifier'')
      then (Inl (Error ''PKCE verifier not found''), \<sigma>)
      else
        (case fetch (handleCallback_request cfg auth_code (the (sessionStorage \<sigma> ''pkce_verifier''))) of
           Rejected \<Rightarrow> (Inl NetworkError, \<sigma>)
         | Response ok statusText body \<Rightarrow>
             if \<not> ok then (Inl (Error ''Failed to exchange authorization code for token''), \<sigma>)
             else
               (case body of
                  None \<Rightarrow> (Inl SyntaxError, \<sigma>)
                | Some data \<Rightarrow>
                    (Inr (),
                     \<lparr>auth = (auth \<sigma>)\<lparr>accessToken := access_token data,
                                     refreshToken := refresh_token data,
                                     tokenExpiry := Some (token_expiry_from now (expires_in data))\<rparr>,
                      sessionStorage = (sessionStorage \<sigma>)(''pkce_verifier'' := None)\<rparr>))))"

definition refreshAccessToken_request :: "arcgisConfig \<Rightarrow> string \<Rightarrow> http_request" where
  "refreshAccessToken_request cfg rt =
     \<lparr>url = portalUrl (oauth cfg) @ ''/sharing/rest/oauth2/token'',
      params = [(''client_id'', clientId (oauth cfg)),
                (''grant_type'', ''refresh_token''),
                (''refresh_token'', rt)]\<rparr>"

definition refreshAccessToken ::
  "arcgisConfig \<Rightarrow> (http_request \<Rightarrow> token_data fetch_result) \<Rightarrow> nat \<Rightarrow> session
     \<Rightarrow> (error + unit) \<times> session" where
  "refreshAccessToken cfg fetch now \<sigma> =
     (if \<not> truthy_string (refreshToken (auth \<sigma>))
      then (Inl (Error ''No refresh token available''), \<sigma>)
      else
        (case fetch (refreshAccessToken_request cfg (the (refreshToken (auth \<sigma>)))) of
           Rejected \<Rightarrow> (Inl NetworkError, \<sigma>)
         | Response ok statusText body \<Rightarrow>
             if \<not> ok
             then (Inl (Error ''Refresh token expired, please log in again''), logout \<sigma>)
             else
               (case body of
                  None \<Rightarrow> (Inl SyntaxError, \<sigma>)
                | Some data \<Rightarrow>
                    (Inr (),
                     \<sigma>\<lparr>auth := (auth \<sigma>)\<lparr>accessToken := access_token data,
                                       tokenExpiry := Some (token_expiry_from now (expires_in data))\<rparr>\<rparr>))))"

section \<open>Feature query client (services/arcgis/featureService.ts)\<close>

text \<open>The operator \<open>||\<close> with a default, on a string field and on a number field.\<close>

definition or_string :: "string option \<Rightarrow> string \<Rightarrow> string" where
  "or_string v d = (if truthy_string v then the v else d)"

definition or_int :: "int option \<Rightarrow> int \<Rightarrow> int" where
  "or_int v d = (case v of None \<Rightarrow> d | Some n \<Rightarrow> if n = 0 then d else n)"

definition or_real :: "real option \<Rightarrow> real \<Rightarrow> real" where
  "or_real v d = (case v of None \<Rightarrow> d | Some r \<Rightarrow> if r = 0 then d else r)"

definition featureToLocation :: "feature \<Rightarrow> Location" where
  "featureToLocation ft =
     (let attrs = attributes ft; geom = geometry ft in
      \<lparr>loc_id = OBJECTID attrs,
       address = or_string (Address attrs) ''Unknown Address'',
       customerMaterial = or_string (CustomerMaterial attrs) ''Unknown'',
       supplierMaterial = or_string (SupplierMaterial attrs) ''Unknown'',
       letterSent = (LetterSent attrs = JNum 1 \<or> LetterSent attrs = JBool True),
       buildYear = or_int (YearBuilt attrs) 0,
       loc_status = or_string (Status attrs) ''UNKNOWN'',
       lat = or_real (map_option geom_y geom) 0,
       lng = or_real (map_option geom_x geom) 0\<rparr>)"

text \<open>
  \<open>const token = authService.getAccessToken(); if (token) params.append("token", token)\<close>
\<close>

definition token_params :: "auth_state \<Rightarrow> nat \<Rightarrow> (string \<times> string) list" where
  "token_params s now =
     (let token = getAccessToken s now in
      if truthy_string token then [(''token'', the token)] else [])"

definition queryFeatures_request ::
  "arcgisConfig \<Rightarrow> auth_state \<Rightarrow> nat \<Rightarrow> FilterOptions \<Rightarrow> http_request" where
  "queryFeatures_request cfg s now filters =
     \<lparr>url = featureServiceUrl cfg @ ''/query'',
      params = [(''where'', buildWhereClause filters),
                (''outFields'', ''*''),
                (''returnGeometry'', ''true''),
                (''f'', ''json''),
                (''outSR'', ''4326'')] @ token_params s now\<rparr>"

definition queryFeatures_try :: "feature_data fetch_result \<Rightarrow> error + Location list" where
  "queryFeatures_try r =
     (case r of
        Rejected \<Rightarrow> Inl NetworkError
      | Response ok statusText body \<Rightarrow>
          if \<not> ok then Inl (Error (''Feature service query failed: '' @ statusText))
          else
            (case body of
               None \<Rightarrow> Inl SyntaxError
             | Some data \<Rightarrow>
                 (case error data of
                    Some m \<Rightarrow> Inl (Error (''ArcGIS Error: '' @ m))
                  | None \<Rightarrow>
                      (case features data of
                         None \<Rightarrow> Inl TypeError
                       | Some fs \<Rightarrow> Inr (map featureToLocation fs)))))"

definition queryFeatures ::
  "arcgisConfig \<Rightarrow> auth_state \<Rightarrow> nat \<Rightarrow> (http_request \<Rightarrow> feature_data fetch_result)
     \<Rightarrow> FilterOptions \<Rightarrow> error + Location list" where
  "queryFeatures cfg s now fetch filters =
     try_catch (queryFeatures_try (fetch (queryFeatures_request cfg s now filters)))
       (\<lambda>e. Inl e)"

text \<open>
  Numbers are written into a request with JavaScript's number-to-string conversion,
  which is a parameter \<open>numstr\<close> of the model.
\<close>

definition queryFeatureById_request ::
  "(real \<Rightarrow> string) \<Rightarrow> arcgisConfig \<Rightarrow> auth_state \<Rightarrow> nat \<Rightarrow> int \<Rightarrow> http_request" where
  "queryFeatureById_request numstr cfg s now objectId =
     \<lparr>url = featureServiceUrl cfg @ ''/query'',
      params = [(''where'', ''OBJECTID = '' @ numstr (of_int objectId)),
                (''outFields'', ''*''),
                (''returnGeometry'', ''true''),
                (''f'', ''json''),
                (''outSR'', ''4326'')] @ token_params s now\<rparr>"

definition queryFeatureById_try :: "feature_data fetch_result \<Rightarrow> error + Location option" where
  "queryFeatureById_try r =
     (case r of
        Rejected \<Rightarrow> Inl NetworkError
      | Response ok statusText body \<Rightarrow>
          (case body of
             None \<Rightarrow> Inl SyntaxError
           | Some data \<Rightarrow>
               (case error data of
                  Some m \<Rightarrow> Inl (Error (''ArcGIS Error: '' @ m))
                | None \<Rightarrow>
                    (case features data of
                       None \<Rightarrow> Inl TypeError
                     | Some fs \<Rightarrow>
                         (if length fs > 0 then Inr (Some (featureToLocation (hd fs)))
                          else Inr None)))))"

definition queryFeatureById ::
  "(real \<Rightarrow> string) \<Rightarrow> arcgisConfig \<Rightarrow> auth_state \<Rightarrow> nat
     \<Rightarrow> (http_request \<Rightarrow> feature_data fetch_result) \<Rightarrow> int \<Rightarrow> error + Location option" where
  "queryFeatureById numstr cfg s now fetch objectId =
     try_catch (queryFeatureById_try (fetch (queryFeatureById_request numstr cfg s now objectId)))
       (\<lambda>e. Inr None)"

record extent =
  xmin :: real
  ymin :: real
  xmax :: real
  ymax :: real

definition queryFeaturesInExtent_request ::
  "(real \<Rightarrow> string) \<Rightarrow> arcgisConfig \<Rightarrow> auth_state \<Rightarrow> nat \<Rightarrow> extent \<Rightarrow> FilterOptions
     \<Rightarrow> http_request" where
  "queryFeaturesInExtent_request numstr cfg s now ext filters =
     \<lparr>url = featureServiceUrl cfg @ ''/query'',
      params = [(''where'', buildWhereClause filters),
                (''geometry'', numstr (xmin ext) @ '','' @ numstr (ymin ext) @ '',''
                                 @ numstr (xmax ext) @ '','' @ numstr (ymax ext)),
                (''geometryType'', ''esriGeometryEnvelope''),
                (''spatialRel'', ''esriSpatialRelIntersects''),
                (''outFields'', ''*''),
                (''returnGeometry'', ''true''),
                (''f'', ''json''),
                (''outSR'', ''4326'')] @ token_params s now\<rparr>"

definition queryFeaturesInExtent_try :: "feature_data fetch_result \<Rightarrow> error + Location list" where
  "queryFeaturesInExtent_try r =
     (case r of
        Rejected \<Rightarrow> Inl NetworkError
      | Response ok statusText body \<Rightarrow>
          (case body of
             None \<Rightarrow> Inl SyntaxError
           | Some data \<Rightarrow>
               (case error data of
                  Some m \<Rightarrow> Inl (Error (''ArcGIS Error: '' @ m))
                | None \<Rightarrow>
                    (case features data of
                       None \<Rightarrow> Inl TypeError
                     | Some fs \<Rightarrow> Inr (map featureToLocation fs)))))"

definition queryFeaturesInExtent ::
  "(real \<Rightarrow> string) \<Rightarrow> arcgisConfig \<Rightarrow> auth_state \<Rightarrow> nat
     \<Rightarrow> (http_request \<Rightarrow> feature_data fetch_result) \<Rightarrow> extent \<Rightarrow> FilterOptions
     \<Rightarrow> error + Location list" where
  "queryFeaturesInExtent numstr cfg s now fetch ext filters =
     try_catch
       (queryFeaturesInExtent_try
          (fetch (queryFeaturesInExtent_request numstr cfg s now ext filters)))
       (\<lambda>e. Inl e)"

definition getFeatureStats_request :: "arcgisConfig \<Rightarrow> auth_state \<Rightarrow> nat \<Rightarrow> http_request" where
  "getFeatureStats_request cfg s now =
     \<lparr>url = featureServiceUrl cfg @ ''/query'',
      params = [(''where'', ''1=1''),
                (''returnGeometry'', ''false''),
                (''returnCountOnly'', ''false''),
                (''outFields'', ''CustomerMaterial,SupplierMaterial,Status''),
                (''f'', ''json'')] @ token_params s now\<rparr>"

definition zero_stats :: feature_stats where
  "zero_stats = \<lparr>total = 0, lead = 0, unknown = 0, verified = 0, assumed = 0\<rparr>"

definition getFeatureStats_try :: "feature_data fetch_result \<Rightarrow> error + feature_stats" where
  "getFeatureStats_try r =
     (case r of
        Rejected \<Rightarrow> Inl NetworkError
      | Response ok statusText body \<Rightarrow>
          (case body of
             None \<Rightarrow> Inl SyntaxError
           | Some data \<Rightarrow>
               (case error data of
                  Some m \<Rightarrow> Inl (Error (''ArcGIS Error: '' @ m))
                | None \<Rightarrow>
                    (case features data of
                       None \<Rightarrow> Inl TypeError
                     | Some fs \<Rightarrow>
                         Inr \<lparr>total = length fs,
                              lead = length (filter (\<lambda>f.
                                  CustomerMaterial (attributes f) = Some ''Lead''
                                  \<or> SupplierMaterial (attributes f) = Some ''Lead'') fs),
                              unknown = length (filter (\<lambda>f.
                                  CustomerMaterial (attributes f) = Some ''Unknown''
                                  \<or> SupplierMaterial (attributes f) = Some ''Unknown'') fs),
                              verified = length (filter (\<lambda>f.
                                  Status (attributes f) = Some ''VERIFIED'') fs),
                              assumed = length (filter (\<lambda>f.
                                  Status (attributes f) = Some ''ASSUMED'') fs)\<rparr>))))"

definition getFeatureStats ::
  "arcgisConfig \<Rightarrow> auth_state \<Rightarrow> nat \<Rightarrow> (http_request \<Rightarrow> feature_data fetch_result)
     \<Rightarrow> error + feature_stats" where
  "getFeatureStats cfg s now fetch =
     try_catch (getFeatureStats_try (fetch (getFeatureStats_request cfg s now)))
       (\<lambda>e. Inr zero_stats)"

section \<open>Address resolver client (services/arcgis/geocoding.ts)\<close>





section \<open>Client-side address filter (components/DashboardsIntegrated.tsx)\<close>

definition filteredLocations :: "string \<Rightarrow> Location list \<Rightarrow> Location list" where
  "filteredLocations searchTerm locations =
     filter (\<lambda>loc.
        if searchTerm \<noteq> [] \<and> \<not> includes_str (toLowerCase (address loc)) (toLowerCase searchTerm)
        then False else True) locations"

section \<open>Reading the string literals of a predicate\<close>

text \<open>
  A specification-side observer, not part of the program: the string literals of a
  predicate as the remote query language reads them, that is, the text between a
  single quote and the next one. \<open>spec_sql_lits cur s\<close> scans \<open>s\<close>; \<open>cur\<close> is the
  literal being read, if any. A literal that is never closed is dropped.
\<close>

fun spec_sql_lits :: "string option \<Rightarrow> string \<Rightarrow> string list" where
  "spec_sql_lits cur [] = []"
| "spec_sql_lits None (c # cs) =
     (if c = CHR 0x27 then spec_sql_lits (Some []) cs else spec_sql_lits None cs)"
| "spec_sql_lits (Some acc) (c # cs) =
     (if c = CHR 0x27 then acc # spec_sql_lits None cs else spec_sql_lits (Some (acc @ [c])) cs)"

definition spec_string_literals :: "string \<Rightarrow> string list" where
  "spec_string_literals s = spec_sql_lits None s"

section \<open>A fixture for the statistics\<close>

text \<open>
  Eight features as the statistics query returns them: two with a lead line, three
  with an unknown line, five verified and two assumed.
\<close>

definition stats_feature :: "string option \<Rightarrow> string option \<Rightarrow> string option \<Rightarrow> feature" where
  "stats_feature cm sm st =
     \<lparr>attributes = \<lparr>OBJECTID = 0, Address = None, CustomerMaterial = cm, SupplierMaterial = sm,
                     LetterSent = JUndefined, YearBuilt = None, Status = st\<rparr>,
      geometry = None\<rparr>"

definition stats_fixture :: "feature list" where
  "stats_fixture =
     [stats_feature (Some ''Lead'') (Some ''Copper'') (Some ''VERIFIED''),
      stats_feature (Some ''Copper'') (Some ''Lead'') (Some ''VERIFIED''),
      stats_feature (Some ''Unknown'') (Some ''Copper'') (Some ''ASSUMED''),
      stats_feature (Some ''Copper'') (Some ''Unknown'') (Some ''ASSUMED''),
      stats_feature (Some ''Unknown'') (Some ''Unknown'') (Some ''UNKNOWN''),
      stats_feature (Some ''Copper'') (Some ''Copper'') (Some ''VERIFIED''),
      stats_feature (Some ''Copper'') (Some ''Galvanized'') (Some ''VERIFIED''),
      stats_feature (Some ''Copper'') None (Some ''VERIFIED'')]"

section \<open>The material classifier\<close>

text \<open>The chain of table look-ups for a code that is present.\<close>

lemma MATERIAL_LABEL_Some:
  "MATERIAL_LABEL (Some c) =
     (if toLowerCase c \<in> {''lead'', ''pb'', ''l''} then ''Lead''
      else if toLowerCase c \<in> {''copper'', ''cu''} then ''Copper''
      else if toLowerCase c \<in> {''galv'', ''galvanized''} then ''Galvanized Steel''
      else if toLowerCase c \<in> {''unknown'', ''unk'', ''u'', ''''} then ''Not determined''
      else c)"
  unfolding MATERIAL_LABEL_def Let_def by (simp only: option.case list.set)

text \<open>
  C4. The classifier is total and case-insensitive. An absent code gives
  \<open>Not determined\<close>. The recognised codes are, besides the short codes
  \<open>pb\<close>, \<open>l\<close>, \<open>cu\<close>, \<open>galv\<close>, \<open>unk\<close>, \<open>u\<close> and the empty string, also the
  full words \<open>lead\<close>, \<open>copper\<close>, \<open>galvanized\<close> and \<open>unknown\<close>; each is mapped to
  its canonical label. Every string whose lower-case form is none of these is
  returned unchanged.
\<close>

theorem MATERIAL_LABEL_classifies:
  "MATERIAL_LABEL None = ''Not determined'' \<and>
   (toLowerCase c \<in> {''lead'', ''pb'', ''l''} \<longrightarrow> MATERIAL_LABEL (Some c) = ''Lead'') \<and>
   (toLowerCase c \<in> {''copper'', ''cu''} \<longrightarrow> MATERIAL_LABEL (Some c) = ''Copper'') \<and>
   (toLowerCase c \<in> {''galv'', ''galvanized''} \<longrightarrow> MATERIAL_LABEL (Some c) = ''Galvanized Steel'') \<and>
   (toLowerCase c \<in> {''unknown'', ''unk'', ''u'', ''''} \<longrightarrow> MATERIAL_LABEL (Some c) = ''Not determined'') \<and>
   (toLowerCase c \<notin> {''lead'', ''pb'', ''l'', ''copper'', ''cu'', ''galv'', ''galvanized'',
                        ''unknown'', ''unk'', ''u'', ''''} \<longrightarrow> MATERIAL_LABEL (Some c) = c)"
proof (intro conjI impI)
  show "MATERIAL_LABEL None = ''Not determined''"
    by (simp add: MATERIAL_LABEL_def)
next
  assume "toLowerCase c \<in> {''lead'', ''pb'', ''l''}"
  then show "MATERIAL_LABEL (Some c) = ''Lead''"
    by (simp only: MATERIAL_LABEL_Some if_True)
next
  assume "toLowerCase c \<in> {''copper'', ''cu''}"
  then have "toLowerCase c \<notin> {''lead'', ''pb'', ''l''}" by auto
  with \<open>toLowerCase c \<in> {''copper'', ''cu''}\<close> show "MATERIAL_LABEL (Some c) = ''Copper''"
    by (simp only: MATERIAL_LABEL_Some if_True if_False)
next
  assume a: "toLowerCase c \<in> {''galv'', ''galvanized''}"
  then have "toLowerCase c \<notin> {''lead'', ''pb'', ''l''}" "toLowerCase c \<notin> {''copper'', ''cu''}" by auto
  with a show "MATERIAL_LABEL (Some c) = ''Galvanized Steel''"
    by (simp only: MATERIAL_LABEL_Some if_True if_False)
next
  assume a: "toLowerCase c \<in> {''unknown'', ''unk'', ''u'', ''''}"
  then have "toLowerCase c \<notin> {''lead'', ''pb'', ''l''}" "toLowerCase c \<notin> {''copper'', ''cu''}"
    "toLowerCase c \<notin> {''galv'', ''galvanized''}" by auto
  with a show "MATERIAL_LABEL (Some c) = ''Not determined''"
    by (simp only: MATERIAL_LABEL_Some if_True if_False)
next
  assume a: "toLowerCase c \<notin> {''lead'', ''pb'', ''l'', ''copper'', ''cu'', ''galv'', ''galvanized'',
                        ''unknown'', ''unk'', ''u'', ''''}"
  then have "toLowerCase c \<notin> {''lead'', ''pb'', ''l''}" "toLowerCase c \<notin> {''copper'', ''cu''}"
    "toLowerCase c \<notin> {''galv'', ''galvanized''}" "toLowerCase c \<notin> {''unknown'', ''unk'', ''u'', ''''}"
    by (simp_all only: insert_iff de_Morgan_disj empty_iff simp_thms)
  then show "MATERIAL_LABEL (Some c) = c"
    by (simp only: MATERIAL_LABEL_Some if_True if_False)
qed

text \<open>
  C4, at concrete codes: \<open>PB\<close>, \<open>Cu\<close>, \<open>GALV\<close>, \<open>Unknown\<close> and the
  unrecognised \<open>PVC\<close>.
\<close>

theorem MATERIAL_LABEL_classifies_witness:
  "toLowerCase ''PB'' \<in> {''lead'', ''pb'', ''l''} \<and> MATERIAL_LABEL (Some ''PB'') = ''Lead'' \<and>
   toLowerCase ''Cu'' \<in> {''copper'', ''cu''} \<and> MATERIAL_LABEL (Some ''Cu'') = ''Copper'' \<and>
   toLowerCase ''GALV'' \<in> {''galv'', ''galvanized''} \<and> MATERIAL_LABEL (Some ''GALV'') = ''Galvanized Steel'' \<and>
   toLowerCase ''Unknown'' \<in> {''unknown'', ''unk'', ''u'', ''''} \<and> MATERIAL_LABEL (Some ''Unknown'') = ''Not determined'' \<and>
   toLowerCase ''PVC'' \<notin> {''lead'', ''pb'', ''l'', ''copper'', ''cu'', ''galv'', ''galvanized'',
                        ''unknown'', ''unk'', ''u'', ''''} \<and> MATERIAL_LABEL (Some ''PVC'') = ''PVC''"
proof -
  have a: "toLowerCase ''PB'' \<in> {''lead'', ''pb'', ''l''}" by (simp add: toLowerCase_def)
  have b: "toLowerCase ''Cu'' \<in> {''copper'', ''cu''}" by (simp add: toLowerCase_def)
  have c: "toLowerCase ''GALV'' \<in> {''galv'', ''galvanized''}" by (simp add: toLowerCase_def)
  have d: "toLowerCase ''Unknown'' \<in> {''unknown'', ''unk'', ''u'', ''''}" by (simp add: toLowerCase_def)
  have e: "toLowerCase ''PVC'' \<notin> {''lead'', ''pb'', ''l'', ''copper'', ''cu'', ''galv'', ''galvanized'',
                        ''unknown'', ''unk'', ''u'', ''''}" by (simp add: toLowerCase_def)
  note t = MATERIAL_LABEL_classifies
  have a': "MATERIAL_LABEL (Some ''PB'') = ''Lead''"
    by (rule t [of "''PB''", THEN conjunct2, THEN conjunct1, THEN mp, OF a])
  have b': "MATERIAL_LABEL (Some ''Cu'') = ''Copper''"
    by (rule t [of "''Cu''", THEN conjunct2, THEN conjunct2, THEN conjunct1, THEN mp, OF b])
  have c': "MATERIAL_LABEL (Some ''GALV'') = ''Galvanized Steel''"
    by (rule t [of "''GALV''", THEN conjunct2, THEN conjunct2, THEN conjunct2, THEN conjunct1,
          THEN mp, OF c])
  have d': "MATERIAL_LABEL (Some ''Unknown'') = ''Not determined''"
    by (rule t [of "''Unknown''", THEN conjunct2, THEN conjunct2, THEN conjunct2, THEN conjunct2,
          THEN conjunct1, THEN mp, OF d])
  have e': "MATERIAL_LABEL (Some ''PVC'') = ''PVC''"
    by (rule t [of "''PVC''", THEN conjunct2, THEN conjunct2, THEN conjunct2, THEN conjunct2,
          THEN conjunct2, THEN mp, OF e])
  show ?thesis
    by (intro conjI) (rule a a' b b' c c' d d' e e')+
qed

text \<open>
  C4 as it is stated lists only the short codes and lets every other non-empty
  string pass through unchanged. The string \<open>unknown\<close> is not one of the listed
  codes and is not empty, yet its label is \<open>Not determined\<close>.
\<close>

theorem MATERIAL_LABEL_full_word_counterexample:
  "toLowerCase ''unknown'' \<notin> {''pb'', ''l'', ''cu'', ''galv'', ''unk'', ''u'', ''''}
   \<and> ''unknown'' \<noteq> ''''
   \<and> MATERIAL_LABEL (Some ''unknown'') = ''Not determined''
   \<and> MATERIAL_LABEL (Some ''unknown'') \<noteq> ''unknown''"
  by (simp add: MATERIAL_LABEL_def toLowerCase_def)

section \<open>The filter clause builder\<close>

text \<open>
  C5. Without a material and without a status condition the predicate is \<open>1=1\<close>
  (also when the status list is empty). For \<open>lead\<close> it is the disjunction that
  compares the customer-side and the supplier-side material with \<open>'Lead'\<close>. A
  material condition and a status condition are joined by \<open>AND\<close>, and the
  status condition is \<open>Status IN (...)\<close> over the quoted elements of the list,
  separated by commas. The meaning of the emitted text is the remote dataset's.
\<close>

theorem buildWhereClause_shapes:
  "buildWhereClause \<lparr>material = M_all, showCustomer = sc, showSupplier = sp, status = None\<rparr> = ''1=1'' \<and>
   buildWhereClause \<lparr>material = M_all, showCustomer = sc, showSupplier = sp, status = Some []\<rparr> = ''1=1'' \<and>
   buildWhereClause \<lparr>material = M_lead, showCustomer = sc, showSupplier = sp, status = None\<rparr>
     = ''(CustomerMaterial = 'Lead' OR SupplierMaterial = 'Lead')'' \<and>
   buildWhereClause \<lparr>material = M_lead, showCustomer = sc, showSupplier = sp, status = Some (s # ss)\<rparr>
     = ''(CustomerMaterial = 'Lead' OR SupplierMaterial = 'Lead')'' @ '' AND ''
       @ ''Status IN ('' @ join '','' (map quote (s # ss)) @ '')'' \<and>
   buildWhereClause \<lparr>material = M_unknown, showCustomer = sc, showSupplier = sp, status = Some (s # ss)\<rparr>
     = ''(CustomerMaterial = 'Unknown' OR SupplierMaterial = 'Unknown')'' @ '' AND ''
       @ ''Status IN ('' @ join '','' (map quote (s # ss)) @ '')'' \<and>
   buildWhereClause \<lparr>material = M_all, showCustomer = sc, showSupplier = sp, status = Some (s # ss)\<rparr>
     = ''Status IN ('' @ join '','' (map quote (s # ss)) @ '')'' \<and>
   buildWhereClause \<lparr>material = M_lead, showCustomer = sc, showSupplier = sp,
                     status = Some [''VERIFIED'', ''ASSUMED'']\<rparr>
     = ''(CustomerMaterial = 'Lead' OR SupplierMaterial = 'Lead') AND Status IN ('VERIFIED','ASSUMED')''"
  by (simp add: buildWhereClause_def material_conditions_def status_conditions_def quote_def)

text \<open>
  Scanning text without a quote finds no literal; scanning a quoted string without
  an inner quote finds that string.
\<close>

lemma spec_sql_lits_None_skip:
  "CHR 0x27 \<notin> set s \<Longrightarrow> spec_sql_lits None (s @ t) = spec_sql_lits None t"
  by (induction s) auto

lemma spec_sql_lits_Some_close:
  "CHR 0x27 \<notin> set s \<Longrightarrow> spec_sql_lits (Some acc) (s @ CHR 0x27 # t) = (acc @ s) # spec_sql_lits None t"
  by (induction s arbitrary: acc) auto

lemma spec_sql_lits_quote:
  "CHR 0x27 \<notin> set s \<Longrightarrow> spec_sql_lits None (quote s @ t) = s # spec_sql_lits None t"
  using spec_sql_lits_Some_close [of s "[]" t] by (simp add: quote_def)

lemma spec_sql_lits_join_quote:
  "\<forall>s \<in> set ss. CHR 0x27 \<notin> set s \<Longrightarrow>
   spec_sql_lits None (join '','' (map quote ss) @ CHR '')'' # t) = ss @ spec_sql_lits None t"
proof (induction ss rule: induct_list012)
  case 1
  then show ?case by simp
next
  case (2 x)
  then show ?case using spec_sql_lits_quote [of x] by simp
next
  case (3 x y zs)
  have "spec_sql_lits None (join '','' (map quote (x # y # zs)) @ CHR '')'' # t)
      = spec_sql_lits None (quote x @ ('','' @ (join '','' (map quote (y # zs)) @ CHR '')'' # t)))"
    by simp
  also have "\<dots> = x # spec_sql_lits None ('','' @ (join '','' (map quote (y # zs)) @ CHR '')'' # t))"
    using 3 by (intro spec_sql_lits_quote) simp
  also have "\<dots> = x # spec_sql_lits None (join '','' (map quote (y # zs)) @ CHR '')'' # t)"
    by simp
  also have "\<dots> = x # (y # zs) @ spec_sql_lits None t"
    using 3 by simp
  finally show ?case by simp
qed

lemma status_enumeration_no_quote:
  "set ss \<subseteq> set status_enumeration \<Longrightarrow> \<forall>s \<in> set ss. CHR 0x27 \<notin> set s"
  by (auto simp: status_enumeration_def)

lemma spec_sql_lits_status_conditions:
  assumes "\<forall>s \<in> set ss. CHR 0x27 \<notin> set s" "ss \<noteq> []"
  shows "spec_sql_lits None (''Status IN ('' @ join '','' (map quote ss) @ '')'') = ss"
  using spec_sql_lits_join_quote [OF assms(1), of "[]"] by simp

text \<open>
  C3, amended. The builder does not validate the status list: every element is
  written between single quotes as it is. When the caller has constrained the list
  to the closed status enumeration, the string literals of the emitted predicate
  are the fixed material literals followed by exactly the supplied members of the
  enumeration, in order.
\<close>

theorem buildWhereClause_literals:
  assumes "set ss \<subseteq> set status_enumeration"
  shows "spec_string_literals
           (buildWhereClause \<lparr>material = m, showCustomer = sc, showSupplier = sp, status = Some ss\<rparr>)
         = (case m of M_all \<Rightarrow> [] | M_lead \<Rightarrow> [''Lead'', ''Lead'']
                    | M_unknown \<Rightarrow> [''Unknown'', ''Unknown'']) @ ss"
proof (cases "ss = []")
  case True
  then show ?thesis
    by (cases m)
       (simp_all add: spec_string_literals_def buildWhereClause_def material_conditions_def
          status_conditions_def)
next
  case False
  then obtain a as where ss: "ss = a # as" by (cases ss) auto
  have nq: "\<forall>s \<in> set ss. CHR 0x27 \<notin> set s"
    using assms by (rule status_enumeration_no_quote)
  have st: "spec_sql_lits None (''Status IN ('' @ join '','' (map quote ss) @ '')'') = ss"
    using nq False by (rule spec_sql_lits_status_conditions)
  show ?thesis
  proof (cases m)
    case M_all
    then show ?thesis
      using st by (simp add: spec_string_literals_def buildWhereClause_def material_conditions_def
          status_conditions_def ss)
  next
    case M_lead
    then show ?thesis
      using st by (simp add: spec_string_literals_def buildWhereClause_def material_conditions_def
          status_conditions_def ss)
  next
    case M_unknown
    then show ?thesis
      using st by (simp add: spec_string_literals_def buildWhereClause_def material_conditions_def
          status_conditions_def ss)
  qed
qed

text \<open>C3, amended, for \<open>lead\<close> with the statuses \<open>VERIFIED\<close> and \<open>UNKNOWN\<close>.\<close>

theorem buildWhereClause_literals_witness:
  "set [''VERIFIED'', ''UNKNOWN''] \<subseteq> set status_enumeration \<and>
   spec_string_literals
     (buildWhereClause \<lparr>material = M_lead, showCustomer = True, showSupplier = True,
        status = Some [''VERIFIED'', ''UNKNOWN'']\<rparr>)
   = [''Lead'', ''Lead'', ''VERIFIED'', ''UNKNOWN'']"
proof -
  have h: "set [''VERIFIED'', ''UNKNOWN''] \<subseteq> set status_enumeration"
    by (simp add: status_enumeration_def)
  show ?thesis
    using h buildWhereClause_literals [OF h, of M_lead True True] by simp
qed

text \<open>
  C3 as it is stated fails: a status element outside the enumeration is
  interpolated verbatim, and here it closes the \<open>IN\<close> list and appends a
  condition of its own.
\<close>

theorem buildWhereClause_free_text_counterexample:
  "buildWhereClause \<lparr>material = M_all, showCustomer = True, showSupplier = True,
     status = Some [''x') OR ('1'='1'']\<rparr> = ''Status IN ('x') OR ('1'='1')''
   \<and> ''x') OR ('1'='1'' \<notin> set status_enumeration"
  by (simp add: buildWhereClause_def material_conditions_def status_conditions_def quote_def status_enumeration_def)

section \<open>The authorization session\<close>

text \<open>The truthiness tests of \<open>isAuthenticated\<close>, spelled out.\<close>

lemma isAuthenticated_iff:
  "isAuthenticated s now \<longleftrightarrow>
     (\<exists>t e. accessToken s = Some t \<and> t \<noteq> [] \<and> tokenExpiry s = Some (Num e) \<and> int now < e)"
  by (auto simp: isAuthenticated_def truthy_string_def truthy_number_def now_less_def
      split: option.splits jsnum.splits)

lemma token_params_cases:
  "token_params s now = (if isAuthenticated s now then [(''token'', the (accessToken s))] else [])"
  by (auto simp: token_params_def getAccessToken_def Let_def truthy_string_def isAuthenticated_def
      split: option.splits)

lemma token_params_attached:
  "(''token'', t) \<in> set (token_params s now) \<Longrightarrow> isAuthenticated s now \<and> accessToken s = Some t"
  by (auto simp: token_params_cases isAuthenticated_iff split: if_splits)

text \<open>
  C1, amended. \<open>isAuthenticated\<close> holds if and only if the access token is
  present and not the empty string and the expiry is present and strictly after the
  current instant. \<open>getAccessToken\<close> returns the token exactly when authenticated
  and nothing otherwise. The session is not authenticated after construction, after
  \<open>logout\<close>, and when the expiry is not in the future. Each of the four query
  requests carries a \<open>token\<close> parameter only when the session is authenticated,
  and then it is the current access token.
\<close>

theorem credential_validity:
  "(isAuthenticated s now \<longleftrightarrow>
      (\<exists>t e. accessToken s = Some t \<and> t \<noteq> [] \<and> tokenExpiry s = Some (Num e) \<and> int now < e)) \<and>
   (getAccessToken s now = Some t \<longleftrightarrow> isAuthenticated s now \<and> accessToken s = Some t) \<and>
   (getAccessToken s now = None \<longleftrightarrow> \<not> isAuthenticated s now) \<and>
   \<not> isAuthenticated initial_auth now \<and>
   \<not> isAuthenticated (auth (logout \<sigma>)) now \<and>
   (tokenExpiry s = Some (Num e) \<and> e \<le> int now \<longrightarrow> \<not> isAuthenticated s now) \<and>
   ((''token'', t) \<in> set (params (queryFeatures_request cfg s now filters))
      \<longrightarrow> isAuthenticated s now \<and> accessToken s = Some t) \<and>
   ((''token'', t) \<in> set (params (queryFeatureById_request numstr cfg s now objectId))
      \<longrightarrow> isAuthenticated s now \<and> accessToken s = Some t) \<and>
   ((''token'', t) \<in> set (params (queryFeaturesInExtent_request numstr cfg s now ext filters))
      \<longrightarrow> isAuthenticated s now \<and> accessToken s = Some t) \<and>
   ((''token'', t) \<in> set (params (getFeatureStats_request cfg s now))
      \<longrightarrow> isAuthenticated s now \<and> accessToken s = Some t)"
proof (intro conjI)
  show "isAuthenticated s now \<longleftrightarrow>
      (\<exists>t e. accessToken s = Some t \<and> t \<noteq> [] \<and> tokenExpiry s = Some (Num e) \<and> int now < e)"
    by (rule isAuthenticated_iff)
  show "getAccessToken s now = Some t \<longleftrightarrow> isAuthenticated s now \<and> accessToken s = Some t"
    by (simp add: getAccessToken_def)
  show "getAccessToken s now = None \<longleftrightarrow> \<not> isAuthenticated s now"
    by (auto simp: getAccessToken_def isAuthenticated_iff)
  show "\<not> isAuthenticated initial_auth now"
    by (simp add: isAuthenticated_iff initial_auth_def)
  show "\<not> isAuthenticated (auth (logout \<sigma>)) now"
    by (simp add: isAuthenticated_iff logout_def)
  show "tokenExpiry s = Some (Num e) \<and> e \<le> int now \<longrightarrow> \<not> isAuthenticated s now"
    by (auto simp: isAuthenticated_iff)
  show "(''token'', t) \<in> set (params (queryFeatures_request cfg s now filters))
      \<longrightarrow> isAuthenticated s now \<and> accessToken s = Some t"
    using token_params_attached [of t s now] by (simp add: queryFeatures_request_def)
  show "(''token'', t) \<in> set (params (queryFeatureById_request numstr cfg s now objectId))
      \<longrightarrow> isAuthenticated s now \<and> accessToken s = Some t"
    using token_params_attached [of t s now] by (simp add: queryFeatureById_request_def)
  show "(''token'', t) \<in> set (params (queryFeaturesInExtent_request numstr cfg s now ext filters))
      \<longrightarrow> isAuthenticated s now \<and> accessToken s = Some t"
    using token_params_attached [of t s now] by (simp add: queryFeaturesInExtent_request_def)
  show "(''token'', t) \<in> set (params (getFeatureStats_request cfg s now))
      \<longrightarrow> isAuthenticated s now \<and> accessToken s = Some t"
    using token_params_attached [of t s now] by (simp add: getFeatureStats_request_def)
qed

text \<open>
  C1, amended, at a session whose token \<open>tok\<close> expires at 2000, seen at 1000, and
  at one whose token expired at 500.
\<close>

theorem credential_validity_witness:
  "(''token'', ''tok'') \<in> set (params (queryFeatures_request example_config
       \<lparr>accessToken = Some ''tok'', refreshToken = None, tokenExpiry = Some (Num 2000), codeVerifier = None\<rparr>
       1000
       \<lparr>material = M_all, showCustomer = True, showSupplier = True, status = None\<rparr>))
   \<and> isAuthenticated
       \<lparr>accessToken = Some ''tok'', refreshToken = None, tokenExpiry = Some (Num 2000), codeVerifier = None\<rparr>
       1000
   \<and> tokenExpiry \<lparr>accessToken = Some ''tok'', refreshToken = None, tokenExpiry = Some (Num 500),
         codeVerifier = None\<rparr> = Some (Num 500)
   \<and> 500 \<le> int 1000
   \<and> \<not> isAuthenticated
       \<lparr>accessToken = Some ''tok'', refreshToken = None, tokenExpiry = Some (Num 500), codeVerifier = None\<rparr>
       1000"
proof -
  let ?cfg = "example_config"
  let ?s = "\<lparr>accessToken = Some ''tok'', refreshToken = None, tokenExpiry = Some (Num 2000), codeVerifier = None\<rparr>"
  let ?s' = "\<lparr>accessToken = Some ''tok'', refreshToken = None, tokenExpiry = Some (Num 500), codeVerifier = None\<rparr>"
  let ?f = "\<lparr>material = M_all, showCustomer = True, showSupplier = True, status = None\<rparr>"
  have h1: "(''token'', ''tok'') \<in> set (params (queryFeatures_request ?cfg ?s 1000 ?f))"
    by (simp add: queryFeatures_request_def token_params_def getAccessToken_def isAuthenticated_def
        truthy_string_def truthy_number_def now_less_def)
  have h2: "tokenExpiry ?s' = Some (Num 500) \<and> 500 \<le> int 1000" by simp
  have c1: "isAuthenticated ?s 1000"
    using credential_validity [where s = ?s and now = 1000 and t = "''tok''" and cfg = ?cfg and filters = ?f] h1 by blast
  have c2: "\<not> isAuthenticated ?s' 1000"
    using credential_validity [where s = ?s' and now = 1000 and e = 500] h2 by blast
  show ?thesis using h1 h2 c1 c2 by blast
qed

text \<open>
  C1 as it is stated fails for a token that is present but empty: the token field
  is not \<open>null\<close> and the expiry (2000) is strictly after the current instant
  (1000), yet the session is not authenticated. \<open>handleCallback\<close> stores such a
  token when the provider answers with an empty \<open>access_token\<close>.
\<close>

theorem isAuthenticated_empty_token_counterexample:
  "accessToken \<lparr>accessToken = Some '''', refreshToken = None, tokenExpiry = Some (Num 2000),
                codeVerifier = None\<rparr> \<noteq> None
   \<and> tokenExpiry \<lparr>accessToken = Some '''', refreshToken = None, tokenExpiry = Some (Num 2000),
                codeVerifier = None\<rparr> = Some (Num 2000)
   \<and> int 1000 < 2000
   \<and> \<not> isAuthenticated \<lparr>accessToken = Some '''', refreshToken = None, tokenExpiry = Some (Num 2000),
                codeVerifier = None\<rparr> 1000"
  by (simp add: isAuthenticated_def truthy_string_def)

text \<open>
  The exchange on its paths: a failed answer leaves the whole session as it was and
  rejects; a successful one removes the verifier. A failed refresh logs out, which
  removes the verifier too.
\<close>

lemma handleCallback_failure_state:
  "fetch (handleCallback_request cfg c (the (sessionStorage \<sigma> ''pkce_verifier''))) = Response False st body
   \<Longrightarrow> snd (handleCallback cfg fetch now c \<sigma>) = \<sigma> \<and> isl (fst (handleCallback cfg fetch now c \<sigma>))"
  by (simp add: handleCallback_def)

lemma handleCallback_success_clears:
  "truthy_string (sessionStorage \<sigma> ''pkce_verifier'') \<Longrightarrow>
   fetch (handleCallback_request cfg c (the (sessionStorage \<sigma> ''pkce_verifier''))) = Response True st (Some d)
   \<Longrightarrow> sessionStorage (snd (handleCallback cfg fetch now c \<sigma>)) ''pkce_verifier'' = None"
  by (simp add: handleCallback_def)

lemma refresh_failure_clears:
  "truthy_string (refreshToken (auth \<sigma>)) \<Longrightarrow>
   fetch (refreshAccessToken_request cfg (the (refreshToken (auth \<sigma>)))) = Response False st body
   \<Longrightarrow> sessionStorage (snd (refreshAccessToken cfg fetch now \<sigma>)) ''pkce_verifier'' = None"
  by (simp add: refreshAccessToken_def logout_def)

text \<open>
  C2. A token exchange that the provider answers with a failure leaves the
  credential fields as they were and rejects with an error, but the handshake
  verifier is still in the session storage afterwards: the \<open>throw\<close> comes before
  the \<open>removeItem\<close>. Here the storage holds the verifier \<open>v\<close> and the answer is
  not \<open>ok\<close>.
\<close>

theorem handleCallback_failure_keeps_verifier:
  "handleCallback example_config (\<lambda>req. Response False ''Bad Request'' None) 1000 ''abc''
     \<lparr>auth = initial_auth, sessionStorage = [''pkce_verifier'' \<mapsto> ''v'']\<rparr>
   = (Inl (Error ''Failed to exchange authorization code for token''),
      \<lparr>auth = initial_auth, sessionStorage = [''pkce_verifier'' \<mapsto> ''v'']\<rparr>)
   \<and> sessionStorage (snd (handleCallback example_config (\<lambda>req. Response False ''Bad Request'' None) 1000 ''abc''
     \<lparr>auth = initial_auth, sessionStorage = [''pkce_verifier'' \<mapsto> ''v'']\<rparr>)) ''pkce_verifier''
     = Some ''v''"
  by (simp add: handleCallback_def truthy_string_def)

section \<open>The feature query client\<close>

text \<open>
  When \<open>fetch\<close> rejects or the provider answers with an error payload,
  query-by-filter and query-by-extent reject with the error, the statistics
  resolve to the all-zero record and query-by-identifier resolves to \<open>null\<close>.
\<close>

lemma failure_asymmetry:
  "(fetch (queryFeatures_request cfg s now filters) = Rejected
      \<longrightarrow> queryFeatures cfg s now fetch filters = Inl NetworkError) \<and>
   (fetch (queryFeaturesInExtent_request numstr cfg s now ext filters) = Rejected
      \<longrightarrow> queryFeaturesInExtent numstr cfg s now fetch ext filters = Inl NetworkError) \<and>
   (fetch (getFeatureStats_request cfg s now) = Rejected
      \<longrightarrow> getFeatureStats cfg s now fetch
            = Inr \<lparr>total = 0, lead = 0, unknown = 0, verified = 0, assumed = 0\<rparr>) \<and>
   (fetch (queryFeatureById_request numstr cfg s now objectId) = Rejected
      \<longrightarrow> queryFeatureById numstr cfg s now fetch objectId = Inr None) \<and>
   (fetch (queryFeatures_request cfg s now filters)
        = Response ok st (Some \<lparr>error = Some m, features = fs\<rparr>)
      \<longrightarrow> queryFeatures cfg s now fetch filters
            = Inl (Error (if ok then ''ArcGIS Error: '' @ m
                          else ''Feature service query failed: '' @ st))) \<and>
   (fetch (queryFeaturesInExtent_request numstr cfg s now ext filters)
        = Response ok st (Some \<lparr>error = Some m, features = fs\<rparr>)
      \<longrightarrow> queryFeaturesInExtent numstr cfg s now fetch ext filters
            = Inl (Error (''ArcGIS Error: '' @ m))) \<and>
   (fetch (getFeatureStats_request cfg s now)
        = Response ok st (Some \<lparr>error = Some m, features = fs\<rparr>)
      \<longrightarrow> getFeatureStats cfg s now fetch
            = Inr \<lparr>total = 0, lead = 0, unknown = 0, verified = 0, assumed = 0\<rparr>) \<and>
   (fetch (queryFeatureById_request numstr cfg s now objectId)
        = Response ok st (Some \<lparr>error = Some m, features = fs\<rparr>)
      \<longrightarrow> queryFeatureById numstr cfg s now fetch objectId = Inr None)"
proof (intro conjI impI)
  assume "fetch (queryFeatures_request cfg s now filters) = Rejected"
  then show "queryFeatures cfg s now fetch filters = Inl NetworkError"
    by (simp add: queryFeatures_def queryFeatures_try_def try_catch_def)
next
  assume "fetch (queryFeaturesInExtent_request numstr cfg s now ext filters) = Rejected"
  then show "queryFeaturesInExtent numstr cfg s now fetch ext filters = Inl NetworkError"
    by (simp add: queryFeaturesInExtent_def queryFeaturesInExtent_try_def try_catch_def)
next
  assume "fetch (getFeatureStats_request cfg s now) = Rejected"
  then show "getFeatureStats cfg s now fetch
      = Inr \<lparr>total = 0, lead = 0, unknown = 0, verified = 0, assumed = 0\<rparr>"
    by (simp add: getFeatureStats_def getFeatureStats_try_def try_catch_def zero_stats_def)
next
  assume "fetch (queryFeatureById_request numstr cfg s now objectId) = Rejected"
  then show "queryFeatureById numstr cfg s now fetch objectId = Inr None"
    by (simp add: queryFeatureById_def queryFeatureById_try_def try_catch_def)
next
  assume "fetch (queryFeatures_request cfg s now filters)
        = Response ok st (Some \<lparr>error = Some m, features = fs\<rparr>)"
  then show "queryFeatures cfg s now fetch filters
      = Inl (Error (if ok then ''ArcGIS Error: '' @ m else ''Feature service query failed: '' @ st))"
    by (simp add: queryFeatures_def queryFeatures_try_def try_catch_def)
next
  assume "fetch (queryFeaturesInExtent_request numstr cfg s now ext filters)
        = Response ok st (Some \<lparr>error = Some m, features = fs\<rparr>)"
  then show "queryFeaturesInExtent numstr cfg s now fetch ext filters
      = Inl (Error (''ArcGIS Error: '' @ m))"
    by (simp add: queryFeaturesInExtent_def queryFeaturesInExtent_try_def try_catch_def)
next
  assume "fetch (getFeatureStats_request cfg s now)
        = Response ok st (Some \<lparr>error = Some m, features = fs\<rparr>)"
  then show "getFeatureStats cfg s now fetch
      = Inr \<lparr>total = 0, lead = 0, unknown = 0, verified = 0, assumed = 0\<rparr>"
    by (simp add: getFeatureStats_def getFeatureStats_try_def try_catch_def zero_stats_def)
next
  assume "fetch (queryFeatureById_request numstr cfg s now objectId)
        = Response ok st (Some \<lparr>error = Some m, features = fs\<rparr>)"
  then show "queryFeatureById numstr cfg s now fetch objectId = Inr None"
    by (simp add: queryFeatureById_def queryFeatureById_try_def try_catch_def)
qed

text \<open>
  The same holds when the body of the answer cannot be read. Only query-by-filter
  looks at \<open>response.ok\<close>: for the other three operations the outcome does not
  depend on the status of the answer.
\<close>

lemma unreadable_answer:
  "fetch (queryFeatures_request cfg s now filters) = Response ok st None
     \<Longrightarrow> isl (queryFeatures cfg s now fetch filters)"
  "fetch (queryFeaturesInExtent_request numstr cfg s now ext filters) = Response ok st None
     \<Longrightarrow> queryFeaturesInExtent numstr cfg s now fetch ext filters = Inl SyntaxError"
  "fetch (getFeatureStats_request cfg s now) = Response ok st None
     \<Longrightarrow> getFeatureStats cfg s now fetch = Inr zero_stats"
  "fetch (queryFeatureById_request numstr cfg s now objectId) = Response ok st None
     \<Longrightarrow> queryFeatureById numstr cfg s now fetch objectId = Inr None"
  by (simp_all add: queryFeatures_def queryFeatures_try_def queryFeaturesInExtent_def
      queryFeaturesInExtent_try_def getFeatureStats_def getFeatureStats_try_def
      queryFeatureById_def queryFeatureById_try_def try_catch_def)

lemma status_not_tested:
  "queryFeaturesInExtent_try (Response ok st body) = queryFeaturesInExtent_try (Response True st body)"
  "getFeatureStats_try (Response ok st body) = getFeatureStats_try (Response True st body)"
  "queryFeatureById_try (Response ok st body) = queryFeatureById_try (Response True st body)"
  by (simp_all add: queryFeaturesInExtent_try_def getFeatureStats_try_def queryFeatureById_try_def)

text \<open>
  C6. The claim covers every transport error, and an answer whose status is not a
  success is one: query-by-filter rejects on it. The other three operations do not
  test the status. On a 500 answer that carries one feature and no error payload,
  query-by-extent resolves to the location instead of rejecting, the statistics
  resolve to non-zero counts instead of the all-zero record, and
  query-by-identifier resolves to the location instead of \<open>null\<close>.
\<close>

theorem non_2xx_answer_with_features:
  "queryFeatures example_config initial_auth 0
     (\<lambda>req. Response False ''Internal Server Error''
        (Some \<lparr>error = None,
               features = Some [stats_feature (Some ''Lead'') (Some ''Copper'') (Some ''VERIFIED'')]\<rparr>))
     \<lparr>material = M_all, showCustomer = True, showSupplier = True, status = None\<rparr>
   = Inl (Error ''Feature service query failed: Internal Server Error'')
   \<and> queryFeaturesInExtent (\<lambda>r. ''0'') example_config initial_auth 0
     (\<lambda>req. Response False ''Internal Server Error''
        (Some \<lparr>error = None,
               features = Some [stats_feature (Some ''Lead'') (Some ''Copper'') (Some ''VERIFIED'')]\<rparr>))
     \<lparr>xmin = 0, ymin = 0, xmax = 1, ymax = 1\<rparr>
     \<lparr>material = M_all, showCustomer = True, showSupplier = True, status = None\<rparr>
   = Inr [\<lparr>loc_id = 0, address = ''Unknown Address'', customerMaterial = ''Lead'',
           supplierMaterial = ''Copper'', letterSent = False, buildYear = 0,
           loc_status = ''VERIFIED'', lat = 0, lng = 0\<rparr>]
   \<and> getFeatureStats example_config initial_auth 0
     (\<lambda>req. Response False ''Internal Server Error''
        (Some \<lparr>error = None,
               features = Some [stats_feature (Some ''Lead'') (Some ''Copper'') (Some ''VERIFIED'')]\<rparr>))
   = Inr \<lparr>total = 1, lead = 1, unknown = 0, verified = 1, assumed = 0\<rparr>
   \<and> queryFeatureById (\<lambda>r. ''0'') example_config initial_auth 0
     (\<lambda>req. Response False ''Internal Server Error''
        (Some \<lparr>error = None,
               features = Some [stats_feature (Some ''Lead'') (Some ''Copper'') (Some ''VERIFIED'')]\<rparr>))
     0
   = Inr (Some \<lparr>loc_id = 0, address = ''Unknown Address'', customerMaterial = ''Lead'',
           supplierMaterial = ''Copper'', letterSent = False, buildYear = 0,
           loc_status = ''VERIFIED'', lat = 0, lng = 0\<rparr>)"
proof (intro conjI)
  have loc: "featureToLocation (stats_feature (Some ''Lead'') (Some ''Copper'') (Some ''VERIFIED''))
      = \<lparr>loc_id = 0, address = ''Unknown Address'', customerMaterial = ''Lead'',
           supplierMaterial = ''Copper'', letterSent = False, buildYear = 0,
           loc_status = ''VERIFIED'', lat = 0, lng = 0\<rparr>"
    by (simp add: featureToLocation_def stats_feature_def or_string_def or_int_def or_real_def
        truthy_string_def)
  show "queryFeatures example_config initial_auth 0
     (\<lambda>req. Response False ''Internal Server Error''
        (Some \<lparr>error = None,
               features = Some [stats_feature (Some ''Lead'') (Some ''Copper'') (Some ''VERIFIED'')]\<rparr>))
     \<lparr>material = M_all, showCustomer = True, showSupplier = True, status = None\<rparr>
   = Inl (Error ''Feature service query failed: Internal Server Error'')"
    by (simp add: queryFeatures_def queryFeatures_try_def try_catch_def)
  show "queryFeaturesInExtent (\<lambda>r. ''0'') example_config initial_auth 0
     (\<lambda>req. Response False ''Internal Server Error''
        (Some \<lparr>error = None,
               features = Some [stats_feature (Some ''Lead'') (Some ''Copper'') (Some ''VERIFIED'')]\<rparr>))
     \<lparr>xmin = 0, ymin = 0, xmax = 1, ymax = 1\<rparr>
     \<lparr>material = M_all, showCustomer = True, showSupplier = True, status = None\<rparr>
   = Inr [\<lparr>loc_id = 0, address = ''Unknown Address'', customerMaterial = ''Lead'',
           supplierMaterial = ''Copper'', letterSent = False, buildYear = 0,
           loc_status = ''VERIFIED'', lat = 0, lng = 0\<rparr>]"
    by (simp add: queryFeaturesInExtent_def queryFeaturesInExtent_try_def try_catch_def loc)
  show "getFeatureStats example_config initial_auth 0
     (\<lambda>req. Response False ''Internal Server Error''
        (Some \<lparr>error = None,
               features = Some [stats_feature (Some ''Lead'') (Some ''Copper'') (Some ''VERIFIED'')]\<rparr>))
   = Inr \<lparr>total = 1, lead = 1, unknown = 0, verified = 1, assumed = 0\<rparr>"
    by (simp add: getFeatureStats_def getFeatureStats_try_def try_catch_def stats_feature_def)
  show "queryFeatureById (\<lambda>r. ''0'') example_config initial_auth 0
     (\<lambda>req. Response False ''Internal Server Error''
        (Some \<lparr>error = None,
               features = Some [stats_feature (Some ''Lead'') (Some ''Copper'') (Some ''VERIFIED'')]\<rparr>))
     0
   = Inr (Some \<lparr>loc_id = 0, address = ''Unknown Address'', customerMaterial = ''Lead'',
           supplierMaterial = ''Copper'', letterSent = False, buildYear = 0,
           loc_status = ''VERIFIED'', lat = 0, lng = 0\<rparr>)"
    by (simp add: queryFeatureById_def queryFeatureById_try_def try_catch_def loc)
qed

text \<open>
  C7. On a successful answer the statistics are counted over the whole feature
  list: \<open>total\<close> is its length, \<open>lead\<close> and \<open>unknown\<close> are the numbers of
  positions whose customer-side or supplier-side material is \<open>Lead\<close>, respectively
  \<open>Unknown\<close>, and \<open>verified\<close> and \<open>assumed\<close> the numbers of positions with
  exactly that status.
\<close>

theorem getFeatureStats_counts:
  assumes "fetch (getFeatureStats_request cfg s now)
             = Response ok st (Some \<lparr>error = None, features = Some fs\<rparr>)"
  shows "getFeatureStats cfg s now fetch =
     Inr \<lparr>total = length fs,
          lead = card {i. i < length fs \<and>
                   (CustomerMaterial (attributes (fs ! i)) = Some ''Lead''
                    \<or> SupplierMaterial (attributes (fs ! i)) = Some ''Lead'')},
          unknown = card {i. i < length fs \<and>
                   (CustomerMaterial (attributes (fs ! i)) = Some ''Unknown''
                    \<or> SupplierMaterial (attributes (fs ! i)) = Some ''Unknown'')},
          verified = card {i. i < length fs \<and> Status (attributes (fs ! i)) = Some ''VERIFIED''},
          assumed = card {i. i < length fs \<and> Status (attributes (fs ! i)) = Some ''ASSUMED''}\<rparr>"
  using assms
  by (simp add: getFeatureStats_def getFeatureStats_try_def try_catch_def length_filter_conv_card)

text \<open>
  C7, on the fixture with 2 lead, 3 unknown, 5 verified and 2 assumed features.
\<close>

theorem getFeatureStats_counts_witness:
  "(\<lambda>req. Response True ''OK'' (Some \<lparr>error = None, features = Some stats_fixture\<rparr>))
      (getFeatureStats_request example_config initial_auth 0)
     = Response True ''OK'' (Some \<lparr>error = None, features = Some stats_fixture\<rparr>)
   \<and> getFeatureStats example_config initial_auth 0
        (\<lambda>req. Response True ''OK'' (Some \<lparr>error = None, features = Some stats_fixture\<rparr>))
     = Inr \<lparr>total = 8, lead = 2, unknown = 3, verified = 5, assumed = 2\<rparr>"
proof -
  let ?fetch = "\<lambda>req :: http_request.
     Response True ''OK'' (Some \<lparr>error = None, features = Some stats_fixture\<rparr>)"
  have h: "?fetch (getFeatureStats_request example_config initial_auth 0)
     = Response True ''OK'' (Some \<lparr>error = None, features = Some stats_fixture\<rparr>)"
    by simp
  have t: "getFeatureStats example_config initial_auth 0 ?fetch =
     Inr \<lparr>total = length stats_fixture,
          lead = card {i. i < length stats_fixture \<and>
                   (CustomerMaterial (attributes (stats_fixture ! i)) = Some ''Lead''
                    \<or> SupplierMaterial (attributes (stats_fixture ! i)) = Some ''Lead'')},
          unknown = card {i. i < length stats_fixture \<and>
                   (CustomerMaterial (attributes (stats_fixture ! i)) = Some ''Unknown''
                    \<or> SupplierMaterial (attributes (stats_fixture ! i)) = Some ''Unknown'')},
          verified = card {i. i < length stats_fixture
                   \<and> Status (attributes (stats_fixture ! i)) = Some ''VERIFIED''},
          assumed = card {i. i < length stats_fixture
                   \<and> Status (attributes (stats_fixture ! i)) = Some ''ASSUMED''}\<rparr>"
    by (rule getFeatureStats_counts [OF h])
  have "getFeatureStats example_config initial_auth 0 ?fetch
     = Inr \<lparr>total = 8, lead = 2, unknown = 3, verified = 5, assumed = 2\<rparr>"
  proof -
    have lf: "card {i. i < length stats_fixture \<and> P (stats_fixture ! i)}
        = length (filter P stats_fixture)" for P
      by (simp add: length_filter_conv_card)
    have "length stats_fixture = 8"
      by (simp add: stats_fixture_def)
    moreover have "card {i. i < length stats_fixture \<and>
                   (CustomerMaterial (attributes (stats_fixture ! i)) = Some ''Lead''
                    \<or> SupplierMaterial (attributes (stats_fixture ! i)) = Some ''Lead'')} = 2"
      unfolding lf [of "\<lambda>f. CustomerMaterial (attributes f) = Some ''Lead''
                    \<or> SupplierMaterial (attributes f) = Some ''Lead''"]
      by (simp add: stats_fixture_def stats_feature_def)
    moreover have "card {i. i < length stats_fixture \<and>
                   (CustomerMaterial (attributes (stats_fixture ! i)) = Some ''Unknown''
                    \<or> SupplierMaterial (attributes (stats_fixture ! i)) = Some ''Unknown'')} = 3"
      unfolding lf [of "\<lambda>f. CustomerMaterial (attributes f) = Some ''Unknown''
                    \<or> SupplierMaterial (attributes f) = Some ''Unknown''"]
      by (simp add: stats_fixture_def stats_feature_def)
    moreover have "card {i. i < length stats_fixture
                   \<and> Status (attributes (stats_fixture ! i)) = Some ''VERIFIED''} = 5"
      unfolding lf [of "\<lambda>f. Status (attributes f) = Some ''VERIFIED''"]
      by (simp add: stats_fixture_def stats_feature_def)
    moreover have "card {i. i < length stats_fixture
                   \<and> Status (attributes (stats_fixture ! i)) = Some ''ASSUMED''} = 2"
      unfolding lf [of "\<lambda>f. Status (attributes f) = Some ''ASSUMED''"]
      by (simp add: stats_fixture_def stats_feature_def)
    ultimately show ?thesis
      unfolding t by (simp only:)
  qed
  with h show ?thesis by (rule conjI)
qed

text \<open>
  C10. The defaults of \<open>featureToLocation\<close>: a missing address, material, build
  year or status is replaced by its fixed default, the notification flag holds
  exactly for the number \<open>1\<close> and the boolean \<open>true\<close>, and a missing geometry
  gives latitude and longitude \<open>0\<close>.
\<close>

theorem featureToLocation_defaults:
  "(Address (attributes ft) = None \<longrightarrow> address (featureToLocation ft) = ''Unknown Address'') \<and>
   (CustomerMaterial (attributes ft) = None
      \<longrightarrow> customerMaterial (featureToLocation ft) = ''Unknown'') \<and>
   (SupplierMaterial (attributes ft) = None
      \<longrightarrow> supplierMaterial (featureToLocation ft) = ''Unknown'') \<and>
   (letterSent (featureToLocation ft)
      \<longleftrightarrow> LetterSent (attributes ft) = JNum 1 \<or> LetterSent (attributes ft) = JBool True) \<and>
   (YearBuilt (attributes ft) = None \<longrightarrow> buildYear (featureToLocation ft) = 0) \<and>
   (Status (attributes ft) = None \<longrightarrow> loc_status (featureToLocation ft) = ''UNKNOWN'') \<and>
   (geometry ft = None \<longrightarrow> lat (featureToLocation ft) = 0 \<and> lng (featureToLocation ft) = 0)"
  by (simp add: featureToLocation_def Let_def or_string_def or_int_def or_real_def truthy_string_def)

text \<open>C10, on a feature with nothing but its key and \<open>LetterSent = 1\<close>.\<close>

theorem featureToLocation_defaults_witness:
  "Address (attributes \<lparr>attributes = \<lparr>OBJECTID = 7, Address = None, CustomerMaterial = None,
       SupplierMaterial = None, LetterSent = JNum 1, YearBuilt = None, Status = None\<rparr>,
       geometry = None\<rparr>) = None
   \<and> address (featureToLocation \<lparr>attributes = \<lparr>OBJECTID = 7, Address = None, CustomerMaterial = None,
       SupplierMaterial = None, LetterSent = JNum 1, YearBuilt = None, Status = None\<rparr>,
       geometry = None\<rparr>) = ''Unknown Address''
   \<and> customerMaterial (featureToLocation \<lparr>attributes = \<lparr>OBJECTID = 7, Address = None,
       CustomerMaterial = None, SupplierMaterial = None, LetterSent = JNum 1, YearBuilt = None,
       Status = None\<rparr>, geometry = None\<rparr>) = ''Unknown''
   \<and> supplierMaterial (featureToLocation \<lparr>attributes = \<lparr>OBJECTID = 7, Address = None,
       CustomerMaterial = None, SupplierMaterial = None, LetterSent = JNum 1, YearBuilt = None,
       Status = None\<rparr>, geometry = None\<rparr>) = ''Unknown''
   \<and> letterSent (featureToLocation \<lparr>attributes = \<lparr>OBJECTID = 7, Address = None,
       CustomerMaterial = None, SupplierMaterial = None, LetterSent = JNum 1, YearBuilt = None,
       Status = None\<rparr>, geometry = None\<rparr>)
   \<and> buildYear (featureToLocation \<lparr>attributes = \<lparr>OBJECTID = 7, Address = None,
       CustomerMaterial = None, SupplierMaterial = None, LetterSent = JNum 1, YearBuilt = None,
       Status = None\<rparr>, geometry = None\<rparr>) = 0
   \<and> loc_status (featureToLocation \<lparr>attributes = \<lparr>OBJECTID = 7, Address = None,
       CustomerMaterial = None, SupplierMaterial = None, LetterSent = JNum 1, YearBuilt = None,
       Status = None\<rparr>, geometry = None\<rparr>) = ''UNKNOWN''
   \<and> lat (featureToLocation \<lparr>attributes = \<lparr>OBJECTID = 7, Address = None,
       CustomerMaterial = None, SupplierMaterial = None, LetterSent = JNum 1, YearBuilt = None,
       Status = None\<rparr>, geometry = None\<rparr>) = 0
   \<and> lng (featureToLocation \<lparr>attributes = \<lparr>OBJECTID = 7, Address = None,
       CustomerMaterial = None, SupplierMaterial = None, LetterSent = JNum 1, YearBuilt = None,
       Status = None\<rparr>, geometry = None\<rparr>) = 0"
  using featureToLocation_defaults [where ft = "\<lparr>attributes = \<lparr>OBJECTID = 7, Address = None,
       CustomerMaterial = None, SupplierMaterial = None, LetterSent = JNum 1, YearBuilt = None,
       Status = None\<rparr>, geometry = None\<rparr>"]
  by simp

section \<open>The address resolver client\<close>



section \<open>The client-side address filter\<close>

text \<open>\<open>includes_str\<close> decides whether the needle is a substring of the haystack.\<close>

lemma starts_with_iff: "starts_with hay needle \<longleftrightarrow> (\<exists>q. hay = needle @ q)"
  by (induction hay needle rule: starts_with.induct) auto

lemma includes_str_iff: "includes_str hay needle \<longleftrightarrow> (\<exists>p q. hay = p @ needle @ q)"
proof (induction hay)
  case Nil
  then show ?case by (auto simp: starts_with_iff)
next
  case (Cons h hs)
  show ?case
  proof
    assume "includes_str (h # hs) needle"
    then consider "starts_with (h # hs) needle" | "includes_str hs needle" by auto
    then show "\<exists>p q. h # hs = p @ needle @ q"
    proof cases
      case 1
      then obtain q where "h # hs = needle @ q" by (auto simp: starts_with_iff)
      then have "h # hs = [] @ needle @ q" by simp
      then show ?thesis by blast
    next
      case 2
      then obtain p q where "hs = p @ needle @ q" using Cons.IH by auto
      then have "h # hs = (h # p) @ needle @ q" by simp
      then show ?thesis by blast
    qed
  next
    assume "\<exists>p q. h # hs = p @ needle @ q"
    then obtain p q where pq: "h # hs = p @ needle @ q" by auto
    show "includes_str (h # hs) needle"
    proof (cases p)
      case Nil
      with pq have "starts_with (h # hs) needle" by (auto simp: starts_with_iff)
      then show ?thesis by simp
    next
      case (Cons a p')
      with pq have "hs = p' @ needle @ q" by simp
      then have "includes_str hs needle" using Cons.IH by blast
      then show ?thesis by simp
    qed
  qed
qed

text \<open>
  C8. The client-side filter keeps exactly the locations whose address, in lower
  case, contains the search term, in lower case, as a substring. The result is
  drawn from the input list, is never longer than it, and is the input list itself
  for the empty search term.
\<close>

theorem filteredLocations_refines:
  "filteredLocations searchTerm locations
     = filter (\<lambda>loc. \<exists>p q. toLowerCase (address loc) = p @ toLowerCase searchTerm @ q) locations
   \<and> set (filteredLocations searchTerm locations) \<subseteq> set locations
   \<and> length (filteredLocations searchTerm locations) \<le> length locations
   \<and> filteredLocations [] locations = locations"
proof (intro conjI)
  have eq: "(if searchTerm \<noteq> [] \<and> \<not> includes_str (toLowerCase (address loc)) (toLowerCase searchTerm)
         then False else True)
        \<longleftrightarrow> (\<exists>p q. toLowerCase (address loc) = p @ toLowerCase searchTerm @ q)" for loc
  proof (cases "searchTerm = []")
    case True
    have "toLowerCase (address loc) = [] @ toLowerCase [] @ toLowerCase (address loc)"
      by (simp add: toLowerCase_def)
    then have "\<exists>p q. toLowerCase (address loc) = p @ toLowerCase [] @ q" by blast
    with True show ?thesis by simp
  next
    case False
    then show ?thesis by (simp add: includes_str_iff)
  qed
  show "filteredLocations searchTerm locations
     = filter (\<lambda>loc. \<exists>p q. toLowerCase (address loc) = p @ toLowerCase searchTerm @ q) locations"
    unfolding filteredLocations_def eq ..
  show "set (filteredLocations searchTerm locations) \<subseteq> set locations"
    by (auto simp: filteredLocations_def)
  show "length (filteredLocations searchTerm locations) \<le> length locations"
    by (simp add: filteredLocations_def)
  show "filteredLocations [] locations = locations"
    by (simp add: filteredLocations_def)
qed

text \<open>C8, for the search term \<open>Oak\<close> on two locations.\<close>

theorem filteredLocations_refines_witness:
  "filteredLocations ''Oak''
     [\<lparr>loc_id = 1, address = ''12 OAK Street'', customerMaterial = ''Lead'',
       supplierMaterial = ''Copper'', letterSent = True, buildYear = 1950,
       loc_status = ''VERIFIED'', lat = 42.1, lng = -87.8\<rparr>,
      \<lparr>loc_id = 2, address = ''5 Elm Road'', customerMaterial = ''Copper'',
       supplierMaterial = ''Copper'', letterSent = False, buildYear = 1990,
       loc_status = ''ASSUMED'', lat = 42.2, lng = -87.9\<rparr>]
   = [\<lparr>loc_id = 1, address = ''12 OAK Street'', customerMaterial = ''Lead'',
       supplierMaterial = ''Copper'', letterSent = True, buildYear = 1950,
       loc_status = ''VERIFIED'', lat = 42.1, lng = -87.8\<rparr>]
   \<and> length (filteredLocations ''Oak''
     [\<lparr>loc_id = 1, address = ''12 OAK Street'', customerMaterial = ''Lead'',
       supplierMaterial = ''Copper'', letterSent = True, buildYear = 1950,
       loc_status = ''VERIFIED'', lat = 42.1, lng = -87.8\<rparr>,
      \<lparr>loc_id = 2, address = ''5 Elm Road'', customerMaterial = ''Copper'',
       supplierMaterial = ''Copper'', letterSent = False, buildYear = 1990,
       loc_status = ''ASSUMED'', lat = 42.2, lng = -87.9\<rparr>])
     \<le> length
     [\<lparr>loc_id = 1, address = ''12 OAK Street'', customerMaterial = ''Lead'',
       supplierMaterial = ''Copper'', letterSent = True, buildYear = 1950,
       loc_status = ''VERIFIED'', lat = 42.1, lng = -87.8\<rparr>,
      \<lparr>loc_id = 2, address = ''5 Elm Road'', customerMaterial = ''Copper'',
       supplierMaterial = ''Copper'', letterSent = False, buildYear = 1990,
       loc_status = ''ASSUMED'', lat = 42.2, lng = -87.9\<rparr>]"
proof -
  let ?locs = "[\<lparr>loc_id = 1, address = ''12 OAK Street'', customerMaterial = ''Lead'',
       supplierMaterial = ''Copper'', letterSent = True, buildYear = 1950,
       loc_status = ''VERIFIED'', lat = 42.1, lng = -87.8\<rparr>,
      \<lparr>loc_id = 2, address = ''5 Elm Road'', customerMaterial = ''Copper'',
       supplierMaterial = ''Copper'', letterSent = False, buildYear = 1990,
       loc_status = ''ASSUMED'', lat = 42.2, lng = -87.9\<rparr>]"
  have "filteredLocations ''Oak'' ?locs = [hd ?locs]"
    by (simp add: filteredLocations_def toLowerCase_def)
  moreover have "length (filteredLocations ''Oak'' ?locs) \<le> length ?locs"
    using filteredLocations_refines [of "''Oak''" ?locs] by (elim conjE)
  ultimately show ?thesis by simp
qed

end
